theory Spec2Isabelle
  imports Main "HOL-Library.Word"
begin

unbundle bit_operations_syntax

section \<open>The heating-coil kernel module (heat\_coil.c)\<close>

text \<open>
  The module drives a heating coil through one GPIO line and reads a MAX6675 thermocouple
  converter over three bit-banged lines. Its state is four file-scope variables
  (\<open>major\<close>, \<open>heating\<close>, \<open>temp\<close>, \<open>watchdog_thread\<close>) and the GPIO lines. Every C
  function becomes a function on that state. What the kernel or the hardware decides
  (the level of the DATA line at each clock, the result of a registration, the readable
  part of a user buffer, the bytes found in fresh memory) is an argument of the function.
  Each function is followed from its first statement to its return or to the trap that
  ends it, with no other thread of the module running in between.
\<close>

subsection \<open>Constants\<close>

abbreviation (input) CS_PIN :: nat where "CS_PIN \<equiv> 24"
abbreviation (input) CLK_PIN :: nat where "CLK_PIN \<equiv> 23"
abbreviation (input) DATA_PIN :: nat where "DATA_PIN \<equiv> 22"
abbreviation (input) HEAT_PIN :: nat where "HEAT_PIN \<equiv> 6"

abbreviation (input) TEMP_MINOR :: nat where "TEMP_MINOR \<equiv> 0"
abbreviation (input) STATUS_MINOR :: nat where "STATUS_MINOR \<equiv> 1"

text \<open>Temperature limits in ticks (one tick is 0.25 degrees Celsius).\<close>

abbreviation (input) TEMP_LIMIT :: int where "TEMP_LIMIT \<equiv> 2151"
abbreviation (input) TEMP_LIMIT_2 :: int where "TEMP_LIMIT_2 \<equiv> 2662"

text \<open>Error numbers of the kernel.\<close>

abbreviation (input) EFAULT :: int where "EFAULT \<equiv> 14"
abbreviation (input) EINVAL :: int where "EINVAL \<equiv> 22"
abbreviation (input) ENOMEM :: int where "ENOMEM \<equiv> 12"

subsection \<open>State\<close>

datatype dev_name = TEMP_DEVICE_NAME | STATUS_DEVICE_NAME

text \<open>
  What \<open>kthread_create\<close> hands back: a task, or an error pointer carrying an errno.
  The source tests the handle against the null pointer, so that value is kept apart.
\<close>

datatype task = Task_null | Task_err int | Task_ok

text \<open>The messages of the \<open>printk\<close> calls, one constructor per format string.\<close>

datatype log_msg =
    Msg_thermal_limit_exceeded
  | Msg_starting_gpio_setup
  | Msg_finished_gpio_setup
  | Msg_freeing_gpio
  | Msg_gpio_freed
  | Msg_load_failed
  | Msg_loaded int
  | Msg_unloaded
  | Msg_coil_turned_on
  | Msg_coil_turned_off

text \<open>
  Calls into the kernel that act on the outside world, in the order the module makes
  them. \<open>Gpio_get_value p v\<close> records that pin \<open>p\<close> was read and gave \<open>v\<close>.
\<close>

datatype event =
    Gpio_request nat
  | Gpio_free nat
  | Gpio_direction_output nat int
  | Gpio_direction_input nat
  | Gpio_set_value nat int
  | Gpio_get_value nat int
  | Usleep_range nat nat
  | Printk log_msg
  | Register_chrdev int dev_name
  | Unregister_chrdev int dev_name
  | Kthread_create
  | Wake_up_process task
  | Kthread_stop task

text \<open>
  \<open>levels p\<close> is the level last driven on output pin \<open>p\<close>. \<open>wd_running\<close> says whether a
  watchdog thread has been woken and not yet stopped; it is the model's view of the
  scheduler, not a variable of the source.
\<close>

record kstate =
  major :: int
  heating :: int
  temp :: "16 word"
  watchdog_thread :: task
  wd_running :: bool
  levels :: "nat \<Rightarrow> bool"
  trace :: "event list"

definition emit :: "event \<Rightarrow> kstate \<Rightarrow> kstate" where
  "emit e s = s\<lparr>trace := trace s @ [e]\<rparr>"

definition printk :: "log_msg \<Rightarrow> kstate \<Rightarrow> kstate" where
  "printk m s = emit (Printk m) s"

subsection \<open>GPIO\<close>

text \<open>An output is high when the value written is not zero.\<close>

definition gpio_set_value :: "nat \<Rightarrow> int \<Rightarrow> kstate \<Rightarrow> kstate" where
  "gpio_set_value p v s = emit (Gpio_set_value p v) (s\<lparr>levels := (levels s)(p := (v \<noteq> 0))\<rparr>)"

definition gpio_direction_output :: "nat \<Rightarrow> int \<Rightarrow> kstate \<Rightarrow> kstate" where
  "gpio_direction_output p v s =
     emit (Gpio_direction_output p v) (s\<lparr>levels := (levels s)(p := (v \<noteq> 0))\<rparr>)"

definition gpio_direction_input :: "nat \<Rightarrow> kstate \<Rightarrow> kstate" where
  "gpio_direction_input p s = emit (Gpio_direction_input p) s"

text \<open>
  The module ignores what \<open>gpio_request\<close> returns. Releasing a pin writes nothing to
  it: the level last driven stays recorded.
\<close>

definition gpio_request :: "nat \<Rightarrow> kstate \<Rightarrow> kstate" where
  "gpio_request p s = emit (Gpio_request p) s"

definition gpio_free :: "nat \<Rightarrow> kstate \<Rightarrow> kstate" where
  "gpio_free p s = emit (Gpio_free p) s"

definition usleep_range :: "nat \<Rightarrow> nat \<Rightarrow> kstate \<Rightarrow> kstate" where
  "usleep_range lo hi s = emit (Usleep_range lo hi) s"

definition gpio_init :: "kstate \<Rightarrow> kstate" where
  "gpio_init s =
     (let s = printk Msg_starting_gpio_setup s;
          s = gpio_request CS_PIN s;
          s = gpio_request CLK_PIN s;
          s = gpio_request DATA_PIN s;
          s = gpio_request HEAT_PIN s;
          s = gpio_direction_output HEAT_PIN 0 s;
          s = gpio_direction_output CS_PIN 1 s;
          s = gpio_direction_output CLK_PIN 0 s;
          s = gpio_direction_input DATA_PIN s
      in printk Msg_finished_gpio_setup s)"

definition gpio_exit :: "kstate \<Rightarrow> kstate" where
  "gpio_exit s =
     (let s = printk Msg_freeing_gpio s;
          s = gpio_free CS_PIN s;
          s = gpio_free CLK_PIN s;
          s = gpio_free DATA_PIN s;
          s = gpio_free HEAT_PIN s
      in printk Msg_gpio_freed s)"

subsection \<open>The coil\<close>

definition turn_heating_coil_on :: "kstate \<Rightarrow> kstate" where
  "turn_heating_coil_on s =
     (if TEMP_LIMIT < uint (temp s) then s
      else
        let s = s\<lparr>heating := 1\<rparr>;
            s = gpio_set_value HEAT_PIN (heating s) s
        in printk Msg_coil_turned_on s)"

definition turn_heating_coil_off :: "kstate \<Rightarrow> kstate" where
  "turn_heating_coil_off s =
     (let s = gpio_set_value HEAT_PIN 0 s;
          s = s\<lparr>heating := 0\<rparr>
      in printk Msg_coil_turned_off s)"

subsection \<open>Reading the MAX6675\<close>

text \<open>
  \<open>din i\<close> is what \<open>gpio_get_value(DATA_PIN)\<close> returns in iteration \<open>i\<close> of the loop. The
  variable \<open>data\<close> is a \<open>u16\<close>, so the shift drops the bit that leaves the word.
\<close>

function temp_loop :: "(nat \<Rightarrow> int) \<Rightarrow> nat \<Rightarrow> 16 word \<Rightarrow> kstate \<Rightarrow> 16 word \<times> kstate" where
  "temp_loop din i data s =
     (if i \<le> 15 then
        let s = gpio_set_value CLK_PIN 1 s;
            s = usleep_range (1000 * 10) (1000 * 12) s;
            data = push_bit 1 data;
            s = emit (Gpio_get_value DATA_PIN (din i)) s;
            data = (if din i = 1 then data OR 1 else data);
            s = gpio_set_value CLK_PIN 0 s;
            s = usleep_range (1000 * 10) (1000 * 12) s
        in temp_loop din (i + 1) data s
      else (data, s))"
  by pat_completeness auto
termination
  by (relation "measure (\<lambda>(din, i, data, s). 16 - i)") auto

declare temp_loop.simps [simp del]

definition temp_data :: "(nat \<Rightarrow> int) \<Rightarrow> kstate \<Rightarrow> 16 word \<times> kstate" where
  "temp_data din s =
     (let s = gpio_set_value CS_PIN 0 s;
          (data, s) = temp_loop din 0 0 s;
          s = gpio_set_value CS_PIN 1 s
      in (drop_bit 3 data AND 0xFFF, s))"

text \<open>The DATA line while the sensor shifts out the frame \<open>F\<close>, most significant bit first.\<close>

definition frame_in :: "16 word \<Rightarrow> nat \<Rightarrow> int" where
  "frame_in F i = (if bit F (15 - i) then 1 else 0)"

subsection \<open>The watchdog thread\<close>

text \<open>
  One pass over the first half of the loop body of \<open>watchdog_fn\<close>: take a sample,
  publish it in \<open>temp\<close>, and switch the coil off when the reading is above
  \<open>TEMP_LIMIT_2\<close> while the coil is on.
\<close>

definition watchdog_sample :: "(nat \<Rightarrow> int) \<Rightarrow> kstate \<Rightarrow> kstate" where
  "watchdog_sample din s =
     (let (t, s) = temp_data din s;
          s = s\<lparr>temp := t\<rparr>
      in if TEMP_LIMIT_2 < uint (temp s) \<and> heating s \<noteq> 0
         then turn_heating_coil_off (printk Msg_thermal_limit_exceeded s)
         else s)"

text \<open>
  \<open>time_before(a, b)\<close> of the kernel is \<open>(long)(a - b) < 0\<close>; \<open>unsigned long\<close> has 32 bits
  on the 32-bit ARM this module is written for.
\<close>

definition time_before :: "32 word \<Rightarrow> 32 word \<Rightarrow> bool" where
  "time_before a b = (sint (a - b) < 0)"

datatype wait_result = Wait_elapsed | Wait_stopped | Wait_pending

text \<open>
  The inner loop that waits for the deadline \<open>j1\<close>. Each pass reads \<open>jiffies\<close> and, when
  the deadline is still ahead, \<open>kthread_should_stop()\<close>; the list holds what the two reads
  give, pass by pass. \<open>Wait_pending\<close>: the observations given end while the loop still waits.
\<close>

fun wait_until :: "32 word \<Rightarrow> (32 word \<times> bool) list \<Rightarrow> wait_result" where
  "wait_until j1 [] = Wait_pending"
| "wait_until j1 ((j, stop) # ps) =
     (if time_before j j1 then (if stop then Wait_stopped else wait_until j1 ps)
      else Wait_elapsed)"

text \<open>What the kernel shows the thread during one iteration of the outer loop.\<close>

record wd_iter =
  it_should_stop :: bool
  it_jiffies :: "32 word"
  it_din :: "nat \<Rightarrow> int"
  it_polls :: "(32 word \<times> bool) list"
  it_signal :: bool

text \<open>
  \<open>watchdog_fn\<close> over the iterations observed, with the kernel constant \<open>HZ\<close> as the
  argument \<open>hz\<close>. The result is \<open>Some 0\<close> when the thread function has returned and
  \<open>None\<close> when it is still in its loop after the last observation. The calls
  \<open>allow_signal\<close> and \<open>schedule\<close> touch no variable of the module and no pin; they are
  left out.
\<close>

fun watchdog_fn :: "32 word \<Rightarrow> wd_iter list \<Rightarrow> kstate \<Rightarrow> int option \<times> kstate" where
  "watchdog_fn hz [] s = (None, s)"
| "watchdog_fn hz (it # its) s =
     (if it_should_stop it then (Some 0, s)
      else
        let j1 = it_jiffies it + 1 * hz;
            s = watchdog_sample (it_din it) s
        in case wait_until j1 (it_polls it) of
             Wait_stopped \<Rightarrow> (Some 0, s)
           | Wait_pending \<Rightarrow> (None, s)
           | Wait_elapsed \<Rightarrow> if it_signal it then (Some 0, s) else watchdog_fn hz its s)"

subsection \<open>Memory seen by the file operations\<close>

text \<open>
  A piece of kernel memory is a function from byte offsets to bytes, together with the
  number of bytes that belong to the object. Offsets at or beyond the size are outside
  the object.
\<close>

type_synonym mem = "nat \<Rightarrow> char"

record block =
  blk_size :: nat
  blk_mem :: mem

definition in_bounds :: "block \<Rightarrow> nat \<Rightarrow> bool" where
  "in_bounds b i = (i < blk_size b)"

text \<open>
  Kernel code that uses an address at which there is no object traps: the kernel kills
  the calling process and the function never returns. A trap is a value of the model:
  a store through a pointer that holds no block, a load through such a pointer or
  outside the block, and the use of a task handle that is no task.
\<close>

datatype fault = Invalid_store | Invalid_load | Invalid_task task

text \<open>
  What \<open>kmalloc\<close> returns: the null pointer when there is no memory, the pointer
  \<open>ZERO_SIZE_PTR\<close> for a request of zero bytes (an address at which nothing is mapped),
  or a block.
\<close>

datatype kptr = Null_ptr | Zero_size_ptr | Block_ptr block

text \<open>
  \<open>kmalloc(n, GFP_KERNEL)\<close>. \<open>heap\<close> is \<open>None\<close> when the kernel has no memory to give,
  and otherwise what the memory handed out holds.
\<close>

definition kmalloc :: "nat \<Rightarrow> mem option \<Rightarrow> kptr" where
  "kmalloc n heap =
     (if n = 0 then Zero_size_ptr
      else case heap of
             None \<Rightarrow> Null_ptr
           | Some m \<Rightarrow> Block_ptr \<lparr>blk_size = n, blk_mem = m\<rparr>)"

text \<open>The load of the byte \<open>p[i]\<close>.\<close>

definition read_byte :: "kptr \<Rightarrow> nat \<Rightarrow> fault + char" where
  "read_byte p i =
     (case p of
        Block_ptr b \<Rightarrow> if in_bounds b i then Inr (blk_mem b i) else Inl Invalid_load
      | Null_ptr \<Rightarrow> Inl Invalid_load
      | Zero_size_ptr \<Rightarrow> Inl Invalid_load)"

text \<open>
  \<open>copy_from_user(to, from, n)\<close>. The list \<open>src\<close> holds the bytes that can be read at the
  user address (none when the address is bad). The kernel copies what it can, fills the
  rest of the \<open>n\<close> bytes with zero bytes and returns the number of bytes not copied. With
  \<open>n = 0\<close> it touches no memory. With \<open>n > 0\<close> it stores \<open>n\<close> bytes through \<open>to\<close>, which
  traps when \<open>to\<close> holds no block of at least \<open>n\<close> bytes.
\<close>

definition copy_from_user :: "kptr \<Rightarrow> char list \<Rightarrow> nat \<Rightarrow> fault + (nat \<times> kptr)" where
  "copy_from_user to src n =
     (if n = 0 then Inr (0, to)
      else case to of
             Block_ptr b \<Rightarrow>
               if n \<le> blk_size b then
                 let k = min n (length src)
                 in Inr (n - k,
                         Block_ptr (b\<lparr>blk_mem := (\<lambda>i. if i < k then src ! i
                                                      else if i < n then CHR 0x00
                                                      else blk_mem b i)\<rparr>))
               else Inl Invalid_store
           | Null_ptr \<Rightarrow> Inl Invalid_store
           | Zero_size_ptr \<Rightarrow> Inl Invalid_store)"

text \<open>
  \<open>copy_to_user(to, from, n)\<close>. \<open>writable\<close> is the number of bytes that can be written at
  the user address. The result is the number of bytes not copied and the bytes stored.
\<close>

definition copy_to_user :: "nat \<Rightarrow> block \<Rightarrow> nat \<Rightarrow> nat \<times> char list" where
  "copy_to_user writable src n =
     (let k = min n writable
      in (n - k, map (blk_mem src) [0..<k]))"

subsection \<open>Formatting\<close>

definition digit :: "nat \<Rightarrow> char" where
  "digit d = ''0123456789'' ! d"

function dec :: "nat \<Rightarrow> char list" where
  "dec n = (if n < 10 then [digit n] else dec (n div 10) @ [digit (n mod 10)])"
  by pat_completeness auto
termination
  by (relation "measure (\<lambda>n. n)") auto

declare dec.simps [simp del]

text \<open>The conversions \<open>%hu\<close> of a \<open>u16\<close> and \<open>%d\<close> of an \<open>int\<close>.\<close>

definition fmt_hu :: "16 word \<Rightarrow> char list" where
  "fmt_hu w = dec (unat w)"

definition fmt_d :: "int \<Rightarrow> char list" where
  "fmt_d i = (if i < 0 then CHR ''-'' # dec (nat (- i)) else dec (nat i))"

text \<open>
  \<open>sprintf(buf, ...)\<close> stores the text and a terminating zero byte from offset 0 on,
  whatever the size of \<open>buf\<close>. \<open>stored txt\<close> is the number of bytes it stores. The
  arrays it is used on lie on the stack of the caller, where a byte stored behind the
  array lands in mapped memory: the model records such a store and goes on.
\<close>

definition sprintf :: "block \<Rightarrow> char list \<Rightarrow> block" where
  "sprintf buf txt =
     buf\<lparr>blk_mem := (\<lambda>i. if i < length txt then txt ! i
                          else if i = length txt then CHR 0x00
                          else blk_mem buf i)\<rparr>"

definition stored :: "char list \<Rightarrow> nat" where
  "stored txt = length txt + 1"

subsection \<open>File operations\<close>

definition dev_open :: "nat \<Rightarrow> kstate \<Rightarrow> int \<times> kstate" where
  "dev_open minor s =
     (if minor = TEMP_MINOR then (0, s)
      else if minor = STATUS_MINOR then (0, s)
      else (0, s))"

text \<open>
  \<open>wr_ret\<close> is the value returned, or the trap that ends the call; \<open>wr_state\<close> is the state
  the call leaves. \<open>heap\<close> is the argument of \<open>kmalloc\<close> above. The result of
  \<open>copy_from_user\<close> is bound and never used, as in the source. \<open>kfree\<close> changes nothing
  that the model keeps.
\<close>

record write_result =
  wr_ret :: "fault + int"
  wr_state :: kstate

definition dev_write ::
  "nat \<Rightarrow> char list \<Rightarrow> nat \<Rightarrow> mem option \<Rightarrow> kstate \<Rightarrow> write_result" where
  "dev_write minor buffer len heap s =
     (let user_input = kmalloc len heap
      in case copy_from_user user_input buffer len of
           Inl f \<Rightarrow> \<lparr>wr_ret = Inl f, wr_state = s\<rparr>
         | Inr (uncopied, user_input) \<Rightarrow>
             if minor = TEMP_MINOR then
               \<lparr>wr_ret = Inr (int len), wr_state = s\<rparr>
             else if minor = STATUS_MINOR then
               (case read_byte user_input 0 of
                  Inl f \<Rightarrow> \<lparr>wr_ret = Inl f, wr_state = s\<rparr>
                | Inr c \<Rightarrow>
                    \<lparr>wr_ret = Inr (int len),
                     wr_state = (if c = CHR ''1''
                                 then turn_heating_coil_on s
                                 else turn_heating_coil_off s)\<rparr>)
             else \<lparr>wr_ret = Inr (int len), wr_state = s\<rparr>)"

text \<open>
  \<open>dev_read\<close> changes no variable of the module, so it returns no state. \<open>stack\<close> is what
  the local array holds before \<open>sprintf\<close>; \<open>rd_user\<close> are the bytes stored in the user
  buffer; \<open>rd_overrun\<close> tells whether \<open>sprintf\<close> stored a byte beyond the local array.
  The argument \<open>len\<close> is not used by the source.
\<close>

record read_result =
  rd_ret :: int
  rd_user :: "char list"
  rd_overrun :: bool

definition dev_read :: "nat \<Rightarrow> nat \<Rightarrow> nat \<Rightarrow> mem \<Rightarrow> kstate \<Rightarrow> read_result" where
  "dev_read minor writable len stack s =
     (if minor = TEMP_MINOR then
        let txt = fmt_hu (temp s) @ [CHR 0x0A];
            temp_string = sprintf \<lparr>blk_size = 5, blk_mem = stack\<rparr> txt;
            (ret, out) = copy_to_user writable temp_string 5
        in \<lparr>rd_ret = (if ret = 0 then 5 else - EFAULT), rd_user = out,
            rd_overrun = (blk_size temp_string < stored txt)\<rparr>
      else if minor = STATUS_MINOR then
        let txt = fmt_d (heating s) @ [CHR 0x0A];
            status_string = sprintf \<lparr>blk_size = 2, blk_mem = stack\<rparr> txt;
            (ret, out) = copy_to_user writable status_string 2
        in \<lparr>rd_ret = (if ret = 0 then 2 else - EFAULT), rd_user = out,
            rd_overrun = (blk_size status_string < stored txt)\<rparr>
      else \<lparr>rd_ret = - EFAULT, rd_user = [], rd_overrun = False\<rparr>)"

definition dev_release :: "nat \<Rightarrow> kstate \<Rightarrow> int \<times> kstate" where
  "dev_release minor s =
     (if minor = STATUS_MINOR then (0, turn_heating_coil_off s) else (0, s))"

subsection \<open>Loading and unloading\<close>

text \<open>
  \<open>wake_up_process(p)\<close> works on the task that \<open>p\<close> points to. With a task the thread
  runs from then on. A handle that is no task, the null pointer or an error pointer,
  is an address at which there is no task: the call traps.
\<close>

definition wake_up_process :: "task \<Rightarrow> kstate \<Rightarrow> fault + kstate" where
  "wake_up_process t s =
     (case t of
        Task_ok \<Rightarrow> Inr (emit (Wake_up_process t) (s\<lparr>wd_running := True\<rparr>))
      | Task_null \<Rightarrow> Inl (Invalid_task t)
      | Task_err e \<Rightarrow> Inl (Invalid_task t))"

text \<open>
  \<open>reg\<close> is what \<open>register_chrdev(0, TEMP_DEVICE_NAME, &fops)\<close> returns and \<open>kt\<close> what
  \<open>kthread_create\<close> returns: a task, or on failure an error pointer (the kernel never
  returns the null pointer there, which is the one value the source tests for). The
  result is the value returned, or the trap that ends the call, and the state then.
\<close>

definition coil_init :: "int \<Rightarrow> task \<Rightarrow> kstate \<Rightarrow> (fault + int) \<times> kstate" where
  "coil_init reg kt s =
     (let s = emit (Register_chrdev 0 TEMP_DEVICE_NAME) s;
          s = s\<lparr>major := reg\<rparr>;
          s = (if major s > 0 then emit (Register_chrdev (major s) STATUS_DEVICE_NAME) s else s)
      in if major s < 0 then (Inr (major s), printk Msg_load_failed s)
         else
           let s = gpio_init s;
               s = emit Kthread_create s;
               s = s\<lparr>watchdog_thread := kt\<rparr>
           in case (if watchdog_thread s \<noteq> Task_null
                    then wake_up_process (watchdog_thread s) s else Inr s) of
                Inl f \<Rightarrow> (Inl f, s)
              | Inr s \<Rightarrow> (Inr 0, printk (Msg_loaded (major s)) s))"

text \<open>
  \<open>kthread_stop\<close> returns when the thread function has returned. A thread that is in the
  middle of a sample finishes it first: \<open>inflight\<close> is the DATA line of that sample, if any.
\<close>

definition kthread_stop :: "(nat \<Rightarrow> int) option \<Rightarrow> kstate \<Rightarrow> kstate" where
  "kthread_stop inflight s =
     (let s = emit (Kthread_stop (watchdog_thread s)) s;
          s = (case inflight of
                 None \<Rightarrow> s
               | Some din \<Rightarrow> if wd_running s then watchdog_sample din s else s)
      in s\<lparr>wd_running := False\<rparr>)"

definition coil_exit :: "(nat \<Rightarrow> int) option \<Rightarrow> kstate \<Rightarrow> kstate" where
  "coil_exit inflight s =
     (let s = emit (Unregister_chrdev (major s) TEMP_DEVICE_NAME) s;
          s = emit (Unregister_chrdev (major s) STATUS_DEVICE_NAME) s;
          s = kthread_stop inflight s;
          s = gpio_exit s
      in printk Msg_unloaded s)"

text \<open>
  The variables as the loader leaves them: static storage is zero. \<open>lv\<close> gives the pin
  levels before the module touches them.
\<close>

definition module_start :: "(nat \<Rightarrow> bool) \<Rightarrow> kstate" where
  "module_start lv =
     \<lparr>major = 0, heating = 0, temp = 0, watchdog_thread = Task_null, wd_running = False,
      levels = lv, trace = []\<rparr>"

subsection \<open>Runs\<close>

text \<open>
  What can happen to a loaded module, one action at a time: a client opens, reads, writes
  or closes a device node, or the watchdog thread takes a sample. A sample happens only
  while the thread runs. A write that traps has changed nothing when it does.
\<close>

datatype action =
    Open nat
  | Release nat
  | Read nat nat nat mem
  | Write nat "char list" nat "mem option"
  | Sample "nat \<Rightarrow> int"

fun step :: "action \<Rightarrow> kstate \<Rightarrow> kstate" where
  "step (Open minor) s = snd (dev_open minor s)"
| "step (Release minor) s = snd (dev_release minor s)"
| "step (Read minor writable len stack) s = s"
| "step (Write minor buffer len heap) s = wr_state (dev_write minor buffer len heap s)"
| "step (Sample din) s = (if wd_running s then watchdog_sample din s else s)"

fun run :: "action list \<Rightarrow> kstate \<Rightarrow> kstate" where
  "run [] s = s"
| "run (a # as) s = run as (step a s)"

subsection \<open>Auxiliary notions\<close>

text \<open>The variables and the line that a sensor frame leaves alone.\<close>

definition coil_part :: "kstate \<Rightarrow> int \<times> bool \<times> bool \<times> int \<times> task" where
  "coil_part s = (heating s, levels s HEAT_PIN, wd_running s, major s, watchdog_thread s)"

text \<open>The state right after the watchdog has stored a fresh sample in \<open>temp\<close>.\<close>

definition published :: "(nat \<Rightarrow> int) \<Rightarrow> kstate \<Rightarrow> kstate" where
  "published din s = (snd (temp_data din s))\<lparr>temp := fst (temp_data din s)\<rparr>"

subsection \<open>Concrete situations\<close>

definition idle_levels :: "nat \<Rightarrow> bool" where
  "idle_levels p = False"

definition zero_mem :: mem where
  "zero_mem i = CHR 0x00"

text \<open>The module loaded with major number 240 and a running watchdog.\<close>

definition loaded :: kstate where
  "loaded = snd (coil_init 240 Task_ok (module_start idle_levels))"

text \<open>
  The sensor reads 400 ticks (raw frame \<open>0x0C80\<close>) and a client writes the byte \<open>1\<close> to
  the status device: the coil is on.
\<close>

definition heating_at_400 :: kstate where
  "heating_at_400 =
     run [Sample (frame_in 0x0C80), Write STATUS_MINOR ''1'' 1 (Some zero_mem)] loaded"

text \<open>
  One iteration of the watchdog loop in which the sensor reads 2700 ticks (raw frame
  \<open>0x5460\<close>) and the deadline passes at the second look at \<open>jiffies\<close>.
\<close>

definition tripping_iteration :: wd_iter where
  "tripping_iteration =
     \<lparr>it_should_stop = False, it_jiffies = 0, it_din = frame_in 0x5460,
      it_polls = [(50, False), (100, False)], it_signal = False\<rparr>"

text \<open>
  From there the coil heats the sensor to 2200 ticks (raw frame \<open>0x44C0\<close>), above the
  first limit and below the second: the watchdog leaves the coil on.
\<close>

definition heating_at_2200 :: kstate where
  "heating_at_2200 = run [Sample (frame_in 0x44C0)] heating_at_400"

text \<open>The coil off while the sensor reads 2200 ticks, and 2151 ticks (raw frame \<open>0x4338\<close>).\<close>

definition idle_at_2200 :: kstate where
  "idle_at_2200 = run [Sample (frame_in 0x44C0)] loaded"

definition idle_at_2151 :: kstate where
  "idle_at_2151 = run [Sample (frame_in 0x4338)] loaded"

section \<open>Properties\<close>

subsection \<open>The sensor frame\<close>

lemma shift_in_bit:
  fixes F :: "16 word"
  shows "push_bit 1 (drop_bit (Suc k) F) OR (if bit F k then 1 else 0) = drop_bit k F"
proof (rule bit_eqI)
  fix n
  assume pb: "possible_bit TYPE(16 word) n"
  have a: "bit (push_bit 1 (drop_bit (Suc k) F)) n = (1 \<le> n \<and> bit F (Suc k + (n - 1)))"
    using pb by (simp only: bit_push_bit_iff bit_drop_bit_eq) simp
  have b: "bit (if bit F k then 1 else 0 :: 16 word) n = (n = 0 \<and> bit F k)"
    by (simp only: bit_1_iff bit_0_eq split: if_split) auto
  have c: "bit (drop_bit k F) n = bit F (k + n)"
    by (simp add: bit_drop_bit_eq)
  show "bit (push_bit 1 (drop_bit (Suc k) F) OR (if bit F k then 1 else 0)) n = bit (drop_bit k F) n"
    unfolding bit_or_iff a b c by (cases n) auto
qed

lemma shift_in_bit_if:
  fixes F :: "16 word"
  shows "(if bit F k then push_bit 1 (drop_bit (Suc k) F) OR 1 else push_bit 1 (drop_bit (Suc k) F))
           = drop_bit k F"
  using shift_in_bit [of k F] by (simp split: if_splits)

lemma frame_in_eq_1: "(frame_in F i = 1) = bit F (15 - i)"
  by (simp add: frame_in_def)

lemma temp_loop_unfold:
  "i \<le> 15 \<Longrightarrow> temp_loop din i data s =
     temp_loop din (i + 1) (if din i = 1 then push_bit 1 data OR 1 else push_bit 1 data)
       (usleep_range (1000 * 10) (1000 * 12) (gpio_set_value CLK_PIN 0
          (emit (Gpio_get_value DATA_PIN (din i))
             (usleep_range (1000 * 10) (1000 * 12) (gpio_set_value CLK_PIN 1 s)))))"
  by (subst temp_loop.simps) (simp add: Let_def)

lemma temp_loop_done: "15 < i \<Longrightarrow> temp_loop din i data s = (data, s)"
  by (subst temp_loop.simps) simp

text \<open>
  With \<open>k\<close> bits still to come, \<open>data\<close> holds the bits of the frame above them; after
  the last bit it is the frame.
\<close>

lemma temp_loop_frame:
  "i + k = 16 \<Longrightarrow> fst (temp_loop (frame_in F) i (drop_bit k F) s) = F"
proof (induction k arbitrary: i s)
  case 0
  then show ?case by (simp add: temp_loop_done)
next
  case (Suc k)
  then have i: "i \<le> 15" and k: "15 - i = k" and n: "(i + 1) + k = 16" by simp_all
  have "(if frame_in F i = 1 then push_bit 1 (drop_bit (Suc k) F) OR 1
         else push_bit 1 (drop_bit (Suc k) F)) = drop_bit k F"
    unfolding frame_in_eq_1 k by (rule shift_in_bit_if)
  then show ?case
    by (simp only: temp_loop_unfold [OF i] Suc.IH [OF n])
qed

lemma temp_data_frame: "fst (temp_data (frame_in F) s) = drop_bit 3 F AND 0xFFF"
  using temp_loop_frame [of 0 16 F "gpio_set_value CS_PIN 0 s"]
  by (simp add: temp_data_def Let_def split_beta)

lemma masked_bound: "unat (w AND (0xFFF :: 16 word)) \<le> 4095"
proof -
  have "w AND 0xFFF \<le> (0xFFF :: 16 word)" by (rule word_and_le1)
  then have "unat (w AND 0xFFF) \<le> unat (0xFFF :: 16 word)" by (simp only: word_le_nat_alt)
  then show ?thesis by simp
qed

lemma drop_bit_flip_bit_2: "drop_bit 3 (flip_bit 2 F) = drop_bit 3 (F :: 16 word)"
  by (rule bit_eqI) (auto simp add: bit_drop_bit_eq bit_flip_bit_iff dest: bit_imp_le_length)

text \<open>
  Claim C5. For every 16-bit frame \<open>F\<close> that the sensor shifts out most significant bit
  first, \<open>temp_data\<close> returns \<open>(F >> 3) & 0x0FFF\<close>, a value between 0 and 4095. The frame
  \<open>0x1640\<close> (bits 0001 0110 0100 0000) gives \<open>0x02C8\<close>, that is 712 ticks. Bit 2 of the
  frame, the open-thermocouple flag, has no influence on the result: the frame with that
  bit flipped gives the same value.
\<close>

theorem temp_data_decodes_frame:
  "fst (temp_data (frame_in F) s) = drop_bit 3 F AND 0x0FFF
   \<and> unat (fst (temp_data (frame_in F) s)) \<le> 4095
   \<and> fst (temp_data (frame_in 0x1640) s) = 0x02C8
   \<and> unat (fst (temp_data (frame_in 0x1640) s)) = 712
   \<and> fst (temp_data (frame_in (flip_bit 2 F)) s) = fst (temp_data (frame_in F) s)"
  by (simp add: temp_data_frame masked_bound drop_bit_flip_bit_2)

subsection \<open>What a sample leaves alone\<close>

lemma coil_part_emit [simp]: "coil_part (emit e s) = coil_part s"
  by (simp add: coil_part_def emit_def)

lemma coil_part_usleep_range [simp]: "coil_part (usleep_range lo hi s) = coil_part s"
  by (simp add: usleep_range_def)

lemma coil_part_gpio_set_value [simp]:
  "p \<noteq> HEAT_PIN \<Longrightarrow> coil_part (gpio_set_value p v s) = coil_part s"
  by (simp add: coil_part_def gpio_set_value_def emit_def)

lemma coil_part_temp_loop: "coil_part (snd (temp_loop din i data s)) = coil_part s"
proof (induction din i data s rule: temp_loop.induct)
  case (1 din i data s)
  show ?case
  proof (cases "i \<le> 15")
    case True
    then show ?thesis
      using 1 [OF True refl refl refl refl refl refl refl]
      by (simp add: temp_loop_unfold)
  next
    case False
    then show ?thesis by (simp add: temp_loop_done)
  qed
qed

lemma coil_part_temp_data: "coil_part (snd (temp_data din s)) = coil_part s"
  using coil_part_temp_loop [of din 0 0 "gpio_set_value CS_PIN 0 s"]
  by (simp add: temp_data_def Let_def split_beta)

lemma heating_temp_data [simp]: "heating (snd (temp_data din s)) = heating s"
  using coil_part_temp_data [of din s] by (simp add: coil_part_def)

lemma levels_temp_data [simp]: "levels (snd (temp_data din s)) HEAT_PIN = levels s HEAT_PIN"
  using coil_part_temp_data [of din s] by (simp add: coil_part_def)

lemma wd_running_temp_data [simp]: "wd_running (snd (temp_data din s)) = wd_running s"
  using coil_part_temp_data [of din s] by (simp add: coil_part_def)

subsection \<open>Switching the coil\<close>

lemma heating_turn_off [simp]: "heating (turn_heating_coil_off s) = 0"
  by (simp add: turn_heating_coil_off_def Let_def printk_def emit_def gpio_set_value_def)

lemma levels_turn_off [simp]: "levels (turn_heating_coil_off s) HEAT_PIN = False"
  by (simp add: turn_heating_coil_off_def Let_def printk_def emit_def gpio_set_value_def)

lemma temp_turn_off [simp]: "temp (turn_heating_coil_off s) = temp s"
  by (simp add: turn_heating_coil_off_def Let_def printk_def emit_def gpio_set_value_def)

lemma wd_running_turn_off [simp]: "wd_running (turn_heating_coil_off s) = wd_running s"
  by (simp add: turn_heating_coil_off_def Let_def printk_def emit_def gpio_set_value_def)

lemma trace_turn_off:
  "trace (turn_heating_coil_off s) =
     trace s @ [Gpio_set_value HEAT_PIN 0, Printk Msg_coil_turned_off]"
  by (simp add: turn_heating_coil_off_def Let_def printk_def emit_def gpio_set_value_def)

subsection \<open>The watchdog\<close>

lemma watchdog_sample_eq:
  "watchdog_sample din s =
     (if TEMP_LIMIT_2 < uint (temp (published din s)) \<and> heating s \<noteq> 0
      then turn_heating_coil_off (printk Msg_thermal_limit_exceeded (published din s))
      else published din s)"
  by (simp add: watchdog_sample_def published_def Let_def split_beta)

lemma temp_published [simp]: "temp (published din s) = fst (temp_data din s)"
  by (simp add: published_def)

lemma heating_published [simp]: "heating (published din s) = heating s"
  by (simp add: published_def)

lemma levels_published [simp]: "levels (published din s) HEAT_PIN = levels s HEAT_PIN"
  by (simp add: published_def)

lemma wd_running_published [simp]: "wd_running (published din s) = wd_running s"
  by (simp add: published_def)

lemma temp_watchdog_sample: "temp (watchdog_sample din s) = fst (temp_data din s)"
  by (simp add: watchdog_sample_eq printk_def emit_def)

lemma wd_running_watchdog_sample [simp]: "wd_running (watchdog_sample din s) = wd_running s"
  by (simp add: watchdog_sample_eq printk_def emit_def)

lemma watchdog_sample_safe:
  "\<not> (heating (watchdog_sample din s) \<noteq> 0 \<and> TEMP_LIMIT_2 < uint (temp (watchdog_sample din s)))"
  by (auto simp add: watchdog_sample_eq)

lemma watchdog_sample_trip:
  assumes "TEMP_LIMIT_2 < uint (temp (published din s))" and "heating s \<noteq> 0"
  shows "watchdog_sample din s =
           turn_heating_coil_off (printk Msg_thermal_limit_exceeded (published din s))"
    and "heating (watchdog_sample din s) = 0"
    and "\<not> levels (watchdog_sample din s) HEAT_PIN"
    and "trace (watchdog_sample din s) =
           trace (published din s) @
             [Printk Msg_thermal_limit_exceeded, Gpio_set_value HEAT_PIN 0,
              Printk Msg_coil_turned_off]"
  using assms by (simp_all add: watchdog_sample_eq trace_turn_off printk_def emit_def)

lemma watchdog_fn_safe:
  "\<not> (heating s \<noteq> 0 \<and> TEMP_LIMIT_2 < uint (temp s)) \<Longrightarrow>
   \<not> (heating (snd (watchdog_fn hz its s)) \<noteq> 0 \<and>
      TEMP_LIMIT_2 < uint (temp (snd (watchdog_fn hz its s))))"
proof (induction its arbitrary: s)
  case Nil
  then show ?case by simp
next
  case (Cons it its)
  show ?case
  proof (cases "it_should_stop it")
    case True
    with Cons.prems show ?thesis by simp
  next
    case False
    have safe: "\<not> (heating (watchdog_sample (it_din it) s) \<noteq> 0 \<and>
       TEMP_LIMIT_2 < uint (temp (watchdog_sample (it_din it) s)))"
      by (rule watchdog_sample_safe)
    show ?thesis
      using False safe Cons.IH [OF safe]
      by (simp add: Let_def split: wait_result.split)
  qed
qed

lemma watchdog_fn_entered_safe:
  assumes "\<not> it_should_stop it"
  shows "\<not> (heating (snd (watchdog_fn hz (it # its) s)) \<noteq> 0 \<and>
           TEMP_LIMIT_2 < uint (temp (snd (watchdog_fn hz (it # its) s))))"
proof -
  have safe: "\<not> (heating (watchdog_sample (it_din it) s) \<noteq> 0 \<and>
     TEMP_LIMIT_2 < uint (temp (watchdog_sample (it_din it) s)))"
    by (rule watchdog_sample_safe)
  show ?thesis
    using assms safe watchdog_fn_safe [OF safe, of hz its]
    by (simp add: Let_def split: wait_result.split)
qed


subsection \<open>Values of the state after each operation\<close>

lemmas prim_defs = emit_def printk_def gpio_set_value_def gpio_direction_output_def
  gpio_direction_input_def gpio_request_def gpio_free_def usleep_range_def

lemma turn_on_proj [simp]:
  "heating (turn_heating_coil_on s) = (if TEMP_LIMIT < uint (temp s) then heating s else 1)"
  "levels (turn_heating_coil_on s) HEAT_PIN =
     (if TEMP_LIMIT < uint (temp s) then levels s HEAT_PIN else True)"
  "temp (turn_heating_coil_on s) = temp s"
  "wd_running (turn_heating_coil_on s) = wd_running s"
  by (simp_all add: turn_heating_coil_on_def Let_def prim_defs)

lemma watchdog_sample_proj [simp]:
  "heating (watchdog_sample din s) =
     (if TEMP_LIMIT_2 < uint (fst (temp_data din s)) \<and> heating s \<noteq> 0 then 0 else heating s)"
  "levels (watchdog_sample din s) HEAT_PIN =
     (if TEMP_LIMIT_2 < uint (fst (temp_data din s)) \<and> heating s \<noteq> 0 then False
      else levels s HEAT_PIN)"
  by (simp_all add: watchdog_sample_eq)

lemmas mem_defs = kmalloc_def copy_from_user_def read_byte_def in_bounds_def

lemma dev_write_status:
  "minor = STATUS_MINOR \<Longrightarrow> 0 < len \<Longrightarrow>
   dev_write minor (c # rest) len (Some heap) s =
     \<lparr>wr_ret = Inr (int len),
      wr_state = (if c = CHR ''1'' then turn_heating_coil_on s else turn_heating_coil_off s)\<rparr>"
  by (simp add: dev_write_def mem_defs Let_def)

lemma dev_write_status_state:
  "minor = STATUS_MINOR \<Longrightarrow> 0 < len \<Longrightarrow>
   wr_state (dev_write minor (c # rest) len (Some heap) s) =
     (if c = CHR ''1'' then turn_heating_coil_on s else turn_heating_coil_off s)"
  by (simp add: dev_write_status)

lemma dev_write_no_memory:
  "0 < len \<Longrightarrow> dev_write minor buffer len None s = \<lparr>wr_ret = Inl Invalid_store, wr_state = s\<rparr>"
  by (simp add: dev_write_def mem_defs Let_def)

lemma gpio_init_proj [simp]:
  "heating (gpio_init s) = heating s"
  "temp (gpio_init s) = temp s"
  "major (gpio_init s) = major s"
  "levels (gpio_init s) HEAT_PIN = False"
  "wd_running (gpio_init s) = wd_running s"
  by (simp_all add: gpio_init_def Let_def prim_defs)

lemma coil_init_proj:
  "heating (snd (coil_init reg kt s)) = heating s"
  "temp (snd (coil_init reg kt s)) = temp s"
  "0 \<le> reg \<Longrightarrow> levels (snd (coil_init reg kt s)) HEAT_PIN = False"
  "0 \<le> reg \<Longrightarrow> wd_running (snd (coil_init reg kt s)) = (if kt = Task_ok then True else wd_running s)"
  "fst (coil_init reg kt s) =
     (if reg < 0 then Inr reg
      else case kt of Task_err e \<Rightarrow> Inl (Invalid_task kt) | Task_null \<Rightarrow> Inr 0 | Task_ok \<Rightarrow> Inr 0)"
  by (cases kt; simp add: coil_init_def Let_def prim_defs wake_up_process_def)+

lemma loaded_proj [simp]:
  "heating loaded = 0" "temp loaded = 0" "\<not> levels loaded HEAT_PIN" "wd_running loaded"
  by (simp_all add: loaded_def coil_init_proj module_start_def)

lemma heating_at_400_eval [simp]:
  "heating heating_at_400 = 1" "temp heating_at_400 = 400" "levels heating_at_400 HEAT_PIN"
  "wd_running heating_at_400"
  by (simp_all add: heating_at_400_def dev_write_status_state temp_watchdog_sample temp_data_frame)


subsection \<open>Unloading\<close>

lemma turn_off_rest [simp]:
  "major (turn_heating_coil_off s) = major s"
  "watchdog_thread (turn_heating_coil_off s) = watchdog_thread s"
  by (simp_all add: turn_heating_coil_off_def Let_def prim_defs)

lemma turn_on_rest [simp]:
  "major (turn_heating_coil_on s) = major s"
  "watchdog_thread (turn_heating_coil_on s) = watchdog_thread s"
  by (simp_all add: turn_heating_coil_on_def Let_def prim_defs)

lemma temp_data_rest [simp]:
  "major (snd (temp_data din s)) = major s"
  "watchdog_thread (snd (temp_data din s)) = watchdog_thread s"
  using coil_part_temp_data [of din s] by (simp_all add: coil_part_def)

lemma watchdog_sample_rest [simp]:
  "major (watchdog_sample din s) = major s"
  "watchdog_thread (watchdog_sample din s) = watchdog_thread s"
  by (simp_all add: watchdog_sample_eq published_def prim_defs)

lemma coil_init_rest:
  "0 \<le> reg \<Longrightarrow> major (snd (coil_init reg kt s)) = reg"
  "0 \<le> reg \<Longrightarrow> watchdog_thread (snd (coil_init reg kt s)) = kt"
  by (cases kt; simp add: coil_init_def Let_def prim_defs wake_up_process_def gpio_init_def)+

lemma heating_at_400_rest [simp]:
  "major heating_at_400 = 240" "watchdog_thread heating_at_400 = Task_ok"
  by (simp_all add: heating_at_400_def dev_write_status_state loaded_def coil_init_rest)

lemma gpio_exit_proj [simp]:
  "heating (gpio_exit s) = heating s"
  "levels (gpio_exit s) = levels s"
  "trace (gpio_exit s) =
     trace s @ [Printk Msg_freeing_gpio, Gpio_free CS_PIN, Gpio_free CLK_PIN,
                Gpio_free DATA_PIN, Gpio_free HEAT_PIN, Printk Msg_gpio_freed]"
  by (simp_all add: gpio_exit_def Let_def prim_defs)

lemma coil_exit_idle_thread:
  "heating (coil_exit None s) = heating s"
  "levels (coil_exit None s) = levels s"
  "trace (coil_exit None s) =
     trace s @ [Unregister_chrdev (major s) TEMP_DEVICE_NAME,
                Unregister_chrdev (major s) STATUS_DEVICE_NAME,
                Kthread_stop (watchdog_thread s),
                Printk Msg_freeing_gpio, Gpio_free CS_PIN, Gpio_free CLK_PIN,
                Gpio_free DATA_PIN, Gpio_free HEAT_PIN, Printk Msg_gpio_freed,
                Printk Msg_unloaded]"
  by (simp_all add: coil_exit_def kthread_stop_def Let_def prim_defs)

lemma fst_temp_loop_any_state:
  "i + k = 16 \<Longrightarrow> fst (temp_loop din i data s) = fst (temp_loop din i data s')"
proof (induction k arbitrary: i data s s')
  case 0
  then show ?case by (simp add: temp_loop_done)
next
  case (Suc k)
  then have i: "i \<le> 15" and n: "(i + 1) + k = 16" by simp_all
  show ?case
    by (simp only: temp_loop_unfold [OF i]) (rule Suc.IH [OF n])
qed

lemma fst_temp_data_any_state: "fst (temp_data din s) = fst (temp_data din s')"
  using fst_temp_loop_any_state [of 0 16 din 0 "gpio_set_value CS_PIN 0 s" "gpio_set_value CS_PIN 0 s'"]
  by (simp add: temp_data_def Let_def split_beta)

lemma fst_temp_data_trace [simp]:
  "fst (temp_data din (s\<lparr>trace := t\<rparr>)) = fst (temp_data din s)"
  by (rule fst_temp_data_any_state)

lemma coil_exit_inflight:
  "heating (coil_exit (Some din) s) =
     (if wd_running s then heating (watchdog_sample din s) else heating s)"
  "levels (coil_exit (Some din) s) HEAT_PIN =
     (if wd_running s then levels (watchdog_sample din s) HEAT_PIN else levels s HEAT_PIN)"
  by (simp_all add: coil_exit_def kthread_stop_def Let_def prim_defs)

text \<open>
  Claim C1. Unloading the module while \<open>heating\<close> is set: the claim wants the HEAT line
  driven low before the HEAT pin is released. \<open>coil_exit\<close> does not do it. In the state
  where the coil has been switched on at 400 ticks, the calls that \<open>coil_exit\<close> makes are
  the two unregistrations, \<open>kthread_stop\<close>, the four \<open>gpio_free\<close> and the messages: no
  write to the HEAT pin is among them, \<open>heating\<close> is still 1 and the level last driven on
  HEAT is still high when the pin is released. The same holds when the watchdog finishes
  a sample of 400 ticks while it is being stopped.
\<close>

theorem coil_exit_leaves_coil_on:
  "heating heating_at_400 = 1
   \<and> levels heating_at_400 HEAT_PIN
   \<and> heating (coil_exit None heating_at_400) = 1
   \<and> levels (coil_exit None heating_at_400) HEAT_PIN
   \<and> trace (coil_exit None heating_at_400) =
       trace heating_at_400 @
         [Unregister_chrdev 240 TEMP_DEVICE_NAME, Unregister_chrdev 240 STATUS_DEVICE_NAME,
          Kthread_stop Task_ok,
          Printk Msg_freeing_gpio, Gpio_free CS_PIN, Gpio_free CLK_PIN,
          Gpio_free DATA_PIN, Gpio_free HEAT_PIN, Printk Msg_gpio_freed,
          Printk Msg_unloaded]
   \<and> heating (coil_exit (Some (frame_in 0x0C80)) heating_at_400) = 1
   \<and> levels (coil_exit (Some (frame_in 0x0C80)) heating_at_400) HEAT_PIN"
  by (simp add: coil_exit_idle_thread coil_exit_inflight temp_data_frame)

subsection \<open>Closing the status device\<close>

lemma run_append: "run (as @ bs) s = run bs (run as s)"
  by (induction as arbitrary: s) simp_all

text \<open>
  Claim C4. Closing the status device calls \<open>turn_heating_coil_off\<close> without any
  condition. So after any sequence of actions that ends with a close of the status
  device, started in any state, \<open>heating\<close> is 0 and the HEAT line is low, whatever the
  temperature and whatever was written before.
\<close>

theorem status_close_switches_off:
  "dev_release STATUS_MINOR s = (0, turn_heating_coil_off s)
   \<and> heating (run (as @ [Release STATUS_MINOR]) s) = 0
   \<and> \<not> levels (run (as @ [Release STATUS_MINOR]) s) HEAT_PIN"
  by (simp add: run_append dev_release_def)

subsection \<open>The first limit\<close>

lemma turn_on_refused: "TEMP_LIMIT < uint (temp s) \<Longrightarrow> turn_heating_coil_on s = s"
  by (simp add: turn_heating_coil_on_def)

lemma dev_write_heating:
  "heating (wr_state (dev_write minor buffer len heap s)) \<noteq> 0 \<Longrightarrow> heating s = 0 \<Longrightarrow>
   uint (temp s) \<le> TEMP_LIMIT"
  by (auto simp add: dev_write_def Let_def split: if_splits sum.splits prod.splits)

lemma step_heating_rises:
  assumes "heating s = 0" and "heating (step a s) \<noteq> 0"
  shows "uint (temp s) \<le> TEMP_LIMIT"
proof (cases a)
  case (Open minor)
  with assms show ?thesis by (simp add: dev_open_def split: if_splits)
next
  case (Release minor)
  with assms show ?thesis by (simp add: dev_release_def split: if_splits)
next
  case (Read minor writable len stack)
  with assms show ?thesis by simp
next
  case (Write minor buffer len heap)
  with assms show ?thesis using dev_write_heating [of minor buffer len heap s] by simp
next
  case (Sample din)
  with assms show ?thesis by (simp split: if_splits)
qed

lemma heating_at_2200_eval [simp]:
  "heating heating_at_2200 = 1" "temp heating_at_2200 = 2200" "levels heating_at_2200 HEAT_PIN"
  by (simp_all add: heating_at_2200_def temp_watchdog_sample temp_data_frame)

lemma idle_at_2200_eval [simp]:
  "heating idle_at_2200 = 0" "temp idle_at_2200 = 2200" "\<not> levels idle_at_2200 HEAT_PIN"
  by (simp_all add: idle_at_2200_def temp_watchdog_sample temp_data_frame)

lemma idle_at_2151_eval [simp]:
  "heating idle_at_2151 = 0" "temp idle_at_2151 = 2151" "\<not> levels idle_at_2151 HEAT_PIN"
  by (simp_all add: idle_at_2151_def temp_watchdog_sample temp_data_frame)

text \<open>
  Claim C3, as stated, fails: it says that an engage request in any state with \<open>temp\<close>
  above \<open>TEMP_LIMIT = 2151\<close> leaves \<open>heating\<close> false and HEAT low. When the coil was
  switched on at 400 ticks and the reading has since risen to 2200 ticks, the request
  returns without effect and the coil stays on.
\<close>

theorem engage_above_soft_limit_keeps_coil_on:
  "TEMP_LIMIT < uint (temp heating_at_2200)
   \<and> turn_heating_coil_on heating_at_2200 = heating_at_2200
   \<and> heating (turn_heating_coil_on heating_at_2200) = 1
   \<and> levels (turn_heating_coil_on heating_at_2200) HEAT_PIN
   \<and> heating (wr_state (dev_write STATUS_MINOR ''1'' 1 (Some zero_mem) heating_at_2200)) = 1
   \<and> levels (wr_state (dev_write STATUS_MINOR ''1'' 1 (Some zero_mem) heating_at_2200)) HEAT_PIN"
  by (simp add: dev_write_status_state turn_on_refused)

text \<open>
  Claim C3, amended. In every state with \<open>temp\<close> above \<open>TEMP_LIMIT = 2151\<close> an engage
  request, made directly or by writing the byte \<open>1\<close> to the status device, returns
  without effect: the state is unchanged, so a coil that is off with HEAT low stays off
  with HEAT low. No action takes \<open>heating\<close> from 0 to a value other than 0 unless \<open>temp\<close>
  is at most 2151. At exactly 2151 the request is granted: \<open>heating\<close> becomes 1 and HEAT
  goes high.
\<close>

theorem engage_guarded_by_soft_limit:
  "(TEMP_LIMIT < uint (temp s) \<longrightarrow> turn_heating_coil_on s = s)
   \<and> (TEMP_LIMIT < uint (temp s) \<and> 0 < len \<longrightarrow>
        wr_state (dev_write STATUS_MINOR (CHR ''1'' # rest) len heap s) = s)
   \<and> (TEMP_LIMIT < uint (temp s) \<and> heating s = 0 \<and> \<not> levels s HEAT_PIN \<longrightarrow>
        heating (turn_heating_coil_on s) = 0 \<and> \<not> levels (turn_heating_coil_on s) HEAT_PIN)
   \<and> (heating s = 0 \<and> heating (step a s) \<noteq> 0 \<longrightarrow> uint (temp s) \<le> TEMP_LIMIT)
   \<and> (uint (temp s) = TEMP_LIMIT \<longrightarrow>
        heating (turn_heating_coil_on s) = 1 \<and> levels (turn_heating_coil_on s) HEAT_PIN)"
proof -
  have refused: "wr_state (dev_write STATUS_MINOR (CHR ''1'' # rest) len heap s) = s"
    if "TEMP_LIMIT < uint (temp s)" "0 < len"
  proof (cases heap)
    case None
    with that show ?thesis by (simp add: dev_write_no_memory)
  next
    case (Some m)
    with that show ?thesis by (simp add: dev_write_status_state turn_on_refused)
  qed
  show ?thesis
    using step_heating_rises [of s a] refused
    by (simp add: turn_on_refused)
qed

theorem engage_guarded_by_soft_limit_witness:
  "TEMP_LIMIT < uint (temp idle_at_2200)
   \<and> heating idle_at_2200 = 0
   \<and> \<not> levels idle_at_2200 HEAT_PIN
   \<and> turn_heating_coil_on idle_at_2200 = idle_at_2200
   \<and> wr_state (dev_write STATUS_MINOR ''1'' 1 (Some zero_mem) idle_at_2200) = idle_at_2200
   \<and> heating (turn_heating_coil_on idle_at_2200) = 0
   \<and> \<not> levels (turn_heating_coil_on idle_at_2200) HEAT_PIN
   \<and> uint (temp idle_at_2151) = TEMP_LIMIT
   \<and> heating idle_at_2151 = 0
   \<and> heating (step (Write STATUS_MINOR ''1'' 1 (Some zero_mem)) idle_at_2151) \<noteq> 0
   \<and> heating (turn_heating_coil_on idle_at_2151) = 1
   \<and> levels (turn_heating_coil_on idle_at_2151) HEAT_PIN"
proof -
  have above: "TEMP_LIMIT < uint (temp idle_at_2200)" "heating idle_at_2200 = 0"
    "\<not> levels idle_at_2200 HEAT_PIN" "(0::nat) < 1"
    by simp_all
  have at: "uint (temp idle_at_2151) = TEMP_LIMIT" "heating idle_at_2151 = 0"
    by simp_all
  note hot = engage_guarded_by_soft_limit
    [of idle_at_2200 1 "[]" "Some zero_mem" "Write STATUS_MINOR ''1'' 1 (Some zero_mem)"]
  note edge = engage_guarded_by_soft_limit
    [of idle_at_2151 1 "[]" "Some zero_mem" "Write STATUS_MINOR ''1'' 1 (Some zero_mem)"]
  have rises: "heating (step (Write STATUS_MINOR ''1'' 1 (Some zero_mem)) idle_at_2151) \<noteq> 0"
    by (simp add: dev_write_status_state)
  from hot above have a: "turn_heating_coil_on idle_at_2200 = idle_at_2200"
    "wr_state (dev_write STATUS_MINOR ''1'' 1 (Some zero_mem) idle_at_2200) = idle_at_2200"
    "heating (turn_heating_coil_on idle_at_2200) = 0"
    "\<not> levels (turn_heating_coil_on idle_at_2200) HEAT_PIN"
    by blast+
  from edge at have b: "heating (turn_heating_coil_on idle_at_2151) = 1"
    "levels (turn_heating_coil_on idle_at_2151) HEAT_PIN"
    by blast+
  show ?thesis
    using above at rises a b by blast
qed

subsection \<open>Decimal text\<close>

lemma dec_digit: "n < 10 \<Longrightarrow> dec n = [digit n]"
  by (subst dec.simps) simp

lemma dec_more: "10 \<le> n \<Longrightarrow> dec n = dec (n div 10) @ [digit (n mod 10)]"
  by (subst dec.simps) simp

lemma length_dec: "0 < k \<Longrightarrow> n < 10 ^ k \<Longrightarrow> length (dec n) \<le> k"
proof (induction k arbitrary: n)
  case 0
  then show ?case by simp
next
  case (Suc k)
  show ?case
  proof (cases "n < 10")
    case True
    then show ?thesis by (simp add: dec_digit)
  next
    case False
    then have k: "0 < k" using Suc.prems by (cases k) simp_all
    have "n div 10 < 10 ^ k" using Suc.prems by (simp add: less_mult_imp_div_less mult.commute)
    then have "length (dec (n div 10)) \<le> k" using Suc.IH k by blast
    then show ?thesis using False by (simp add: dec_more)
  qed
qed

lemma fmt_hu_examples:
  "fmt_hu 0 = ''0''" "fmt_hu 400 = ''400''" "fmt_hu 712 = ''712''" "fmt_hu 2200 = ''2200''"
  "fmt_hu 4095 = ''4095''"
  by (simp_all add: fmt_hu_def dec_more dec_digit digit_def)

lemma fmt_d_bit: "fmt_d 0 = ''0''" "fmt_d 1 = ''1''"
  by (simp_all add: fmt_d_def dec_digit digit_def)

subsection \<open>Bytes handed to the client\<close>

lemma sprintf_text: "i < length txt \<Longrightarrow> blk_mem (sprintf b txt) i = txt ! i"
  by (simp add: sprintf_def)

lemma copy_to_user_all:
  "n \<le> writable \<Longrightarrow> copy_to_user writable src n = (0, map (blk_mem src) [0..<n])"
  by (simp add: copy_to_user_def Let_def min_def)

lemma copy_to_user_fault:
  "writable < n \<Longrightarrow> fst (copy_to_user writable src n) \<noteq> 0"
  by (simp add: copy_to_user_def Let_def min_def)

lemma take_sprintf:
  "take (length txt) (map (blk_mem (sprintf b txt)) [0..<n]) = take n txt"
proof (rule nth_equalityI)
  show "length (take (length txt) (map (blk_mem (sprintf b txt)) [0..<n])) = length (take n txt)"
    by (simp add: min.commute)
next
  fix i
  assume "i < length (take (length txt) (map (blk_mem (sprintf b txt)) [0..<n]))"
  then have "i < length txt" and "i < n" by simp_all
  then show "take (length txt) (map (blk_mem (sprintf b txt)) [0..<n]) ! i = take n txt ! i"
    by (simp add: sprintf_text)
qed

lemma dev_read_temp_ok:
  assumes "5 \<le> writable"
  shows "rd_ret (dev_read TEMP_MINOR writable len stack s) = 5"
    and "rd_user (dev_read TEMP_MINOR writable len stack s) =
           map (blk_mem (sprintf \<lparr>blk_size = 5, blk_mem = stack\<rparr> (fmt_hu (temp s) @ [CHR 0x0A])))
             [0..<5]"
  using assms by (simp_all add: dev_read_def Let_def copy_to_user_all)

lemma dev_read_status_ok:
  assumes "minor = STATUS_MINOR" and "2 \<le> writable"
  shows "rd_ret (dev_read minor writable len stack s) = 2"
    and "rd_user (dev_read minor writable len stack s) =
           map (blk_mem (sprintf \<lparr>blk_size = 2, blk_mem = stack\<rparr> (fmt_d (heating s) @ [CHR 0x0A])))
             [0..<2]"
  using assms by (simp_all add: dev_read_def Let_def copy_to_user_all)

lemma dev_read_fault:
  "writable < 5 \<Longrightarrow> rd_ret (dev_read TEMP_MINOR writable len stack s) = - EFAULT"
  "minor = STATUS_MINOR \<Longrightarrow> writable < 2 \<Longrightarrow>
     rd_ret (dev_read minor writable len stack s) = - EFAULT"
  using copy_to_user_fault [of writable 5] copy_to_user_fault [of writable 2]
  by (simp_all add: dev_read_def Let_def split_beta)

lemma upt_0_2: "[0..<2] = [0, 1]"
  by (simp add: upt_rec)

lemma status_bytes:
  "map (blk_mem (sprintf b [c, CHR 0x0A])) [0..<2] = [c, CHR 0x0A]"
  by (simp add: upt_0_2 sprintf_def)

text \<open>
  Claim C8. A read of the temperature device whose copy to the client succeeds stores
  exactly 5 bytes there and returns 5. The bytes start with the decimal text of \<open>temp\<close>
  followed by a newline, cut after 5 bytes if it were longer; for every \<open>temp\<close> from 0 to
  4095 the text with its newline has at most 5 bytes, so it is there in full and the rest
  of the 5 bytes is padding. When the copy faults the read returns \<open>-EFAULT\<close>.
\<close>

theorem temp_read_five_bytes:
  "(5 \<le> writable \<longrightarrow>
      rd_ret (dev_read TEMP_MINOR writable len stack s) = 5
      \<and> length (rd_user (dev_read TEMP_MINOR writable len stack s)) = 5
      \<and> take (length (fmt_hu (temp s) @ [CHR 0x0A]))
           (rd_user (dev_read TEMP_MINOR writable len stack s))
         = take 5 (fmt_hu (temp s) @ [CHR 0x0A]))
   \<and> (5 \<le> writable \<and> unat (temp s) \<le> 4095 \<longrightarrow>
        length (fmt_hu (temp s) @ [CHR 0x0A]) \<le> 5
        \<and> take (length (fmt_hu (temp s) @ [CHR 0x0A]))
             (rd_user (dev_read TEMP_MINOR writable len stack s))
           = fmt_hu (temp s) @ [CHR 0x0A])
   \<and> (writable < 5 \<longrightarrow> rd_ret (dev_read TEMP_MINOR writable len stack s) = - EFAULT)"
proof -
  define line where "line = fmt_hu (temp s) @ [CHR 0x0A]"
  define r where "r = dev_read TEMP_MINOR writable len stack s"
  have ok: "rd_ret r = 5 \<and> length (rd_user r) = 5 \<and> take (length line) (rd_user r) = take 5 line"
    if "5 \<le> writable"
    unfolding r_def line_def dev_read_temp_ok [OF that] take_sprintf by simp
  have short: "length line \<le> 5" if "unat (temp s) \<le> 4095"
    using that length_dec [of 4 "unat (temp s)"] by (simp add: line_def fmt_hu_def)
  have full: "take (length line) (rd_user r) = line" if "5 \<le> writable" "unat (temp s) \<le> 4095"
    using ok [OF that(1)] short [OF that(2)] by simp
  have fault: "rd_ret r = - EFAULT" if "writable < 5"
    unfolding r_def using that by (rule dev_read_fault)
  show ?thesis
    using ok short full fault unfolding r_def line_def by blast
qed

text \<open>
  The witness: at 400 ticks a read with room for 5 bytes returns 5 and delivers \<open>400\<close>
  and a newline; a read into a buffer that cannot be written returns \<open>-EFAULT\<close>.
\<close>

theorem temp_read_five_bytes_witness:
  "(5::nat) \<le> 5
   \<and> unat (temp heating_at_400) \<le> 4095
   \<and> rd_ret (dev_read TEMP_MINOR 5 5 zero_mem heating_at_400) = 5
   \<and> length (rd_user (dev_read TEMP_MINOR 5 5 zero_mem heating_at_400)) = 5
   \<and> take 4 (rd_user (dev_read TEMP_MINOR 5 5 zero_mem heating_at_400)) = ''400'' @ [CHR 0x0A]
   \<and> (0::nat) < 5
   \<and> rd_ret (dev_read TEMP_MINOR 0 5 zero_mem heating_at_400) = - EFAULT"
proof -
  have pre: "(5::nat) \<le> 5" "unat (temp heating_at_400) \<le> 4095" "(0::nat) < 5"
    by simp_all
  have line: "fmt_hu (temp heating_at_400) @ [CHR 0x0A] = ''400'' @ [CHR 0x0A]"
    by (simp add: fmt_hu_examples)
  note ok = temp_read_five_bytes [of 5 5 zero_mem heating_at_400]
  note bad = temp_read_five_bytes [of 0 5 zero_mem heating_at_400]
  from ok pre have a: "rd_ret (dev_read TEMP_MINOR 5 5 zero_mem heating_at_400) = 5"
    "length (rd_user (dev_read TEMP_MINOR 5 5 zero_mem heating_at_400)) = 5"
    "take (length (fmt_hu (temp heating_at_400) @ [CHR 0x0A]))
       (rd_user (dev_read TEMP_MINOR 5 5 zero_mem heating_at_400))
     = fmt_hu (temp heating_at_400) @ [CHR 0x0A]"
    by blast+
  from a(3) have b: "take 4 (rd_user (dev_read TEMP_MINOR 5 5 zero_mem heating_at_400))
                       = ''400'' @ [CHR 0x0A]"
    unfolding line by (simp add: eval_nat_numeral)
  from bad pre have c: "rd_ret (dev_read TEMP_MINOR 0 5 zero_mem heating_at_400) = - EFAULT"
    by blast
  show ?thesis
    using pre a(1,2) b c by blast
qed

text \<open>
  What the padding is: the zero byte that ends the text, then what the stack held. And
  for a reading of four digits \<open>sprintf\<close> stores that zero byte behind the array.
\<close>

lemma temp_read_padding:
  assumes "5 \<le> writable"
  shows "length (fmt_hu (temp s)) + 1 < 5 \<Longrightarrow>
           rd_user (dev_read TEMP_MINOR writable len stack s) ! (length (fmt_hu (temp s)) + 1)
             = CHR 0x00"
    and "length (fmt_hu (temp s)) + 1 < i \<Longrightarrow> i < 5 \<Longrightarrow>
           rd_user (dev_read TEMP_MINOR writable len stack s) ! i = stack i"
  using assms by (simp_all add: dev_read_temp_ok sprintf_def)

lemma temp_read_overrun:
  "rd_overrun (dev_read TEMP_MINOR writable len stack s) = (4 \<le> length (fmt_hu (temp s)))"
  by (auto simp add: dev_read_def Let_def split_beta stored_def sprintf_def)

lemma dec_not_empty: "dec n \<noteq> []"
  by (subst dec.simps) simp

lemma status_read_overrun:
  "minor = STATUS_MINOR \<Longrightarrow> rd_overrun (dev_read minor writable len stack s)"
  by (simp add: dev_read_def Let_def split_beta stored_def sprintf_def fmt_d_def dec_not_empty)

subsection \<open>Writing and reading the status device\<close>

text \<open>
  Claim C7. Writing a buffer that starts with the byte \<open>1\<close> to the status device while
  \<open>temp\<close> is at most \<open>TEMP_LIMIT\<close>, then reading the status device, gives exactly the two
  bytes \<open>1\<close> and newline. Writing a buffer that starts with any other byte, then reading,
  gives exactly the two bytes \<open>0\<close> and newline.
  The write is one of at least one byte that got its memory; it returns its length.
\<close>

theorem status_round_trip:
  "(0 < len \<and> 2 \<le> writable \<and> uint (temp s) \<le> TEMP_LIMIT \<longrightarrow>
      rd_ret (dev_read STATUS_MINOR writable rlen stack
                (wr_state (dev_write STATUS_MINOR (CHR ''1'' # rest) len (Some heap) s))) = 2
      \<and> rd_user (dev_read STATUS_MINOR writable rlen stack
                (wr_state (dev_write STATUS_MINOR (CHR ''1'' # rest) len (Some heap) s)))
          = [CHR ''1'', CHR 0x0A]
      \<and> wr_ret (dev_write STATUS_MINOR (CHR ''1'' # rest) len (Some heap) s) = Inr (int len))
   \<and> (0 < len \<and> 2 \<le> writable \<and> c \<noteq> CHR ''1'' \<longrightarrow>
      rd_ret (dev_read STATUS_MINOR writable rlen stack
                (wr_state (dev_write STATUS_MINOR (c # rest) len (Some heap) s))) = 2
      \<and> rd_user (dev_read STATUS_MINOR writable rlen stack
                (wr_state (dev_write STATUS_MINOR (c # rest) len (Some heap) s)))
          = [CHR ''0'', CHR 0x0A]
      \<and> wr_ret (dev_write STATUS_MINOR (c # rest) len (Some heap) s) = Inr (int len))"
  by (simp add: dev_write_status dev_read_status_ok fmt_d_bit status_bytes)

theorem status_round_trip_witness:
  "(0::nat) < 1 \<and> (2::nat) \<le> 2 \<and> uint (temp loaded) \<le> TEMP_LIMIT
   \<and> rd_ret (dev_read STATUS_MINOR 2 2 zero_mem
               (wr_state (dev_write STATUS_MINOR ''1'' 1 (Some zero_mem) loaded))) = 2
   \<and> rd_user (dev_read STATUS_MINOR 2 2 zero_mem
               (wr_state (dev_write STATUS_MINOR ''1'' 1 (Some zero_mem) loaded))) = [CHR ''1'', CHR 0x0A]
   \<and> CHR ''0'' \<noteq> CHR ''1''
   \<and> rd_ret (dev_read STATUS_MINOR 2 2 zero_mem
               (wr_state (dev_write STATUS_MINOR ''0'' 1 (Some zero_mem) heating_at_400))) = 2
   \<and> rd_user (dev_read STATUS_MINOR 2 2 zero_mem
               (wr_state (dev_write STATUS_MINOR ''0'' 1 (Some zero_mem) heating_at_400)))
       = [CHR ''0'', CHR 0x0A]"
proof -
  have pre: "(0::nat) < 1" "(2::nat) \<le> 2" "uint (temp loaded) \<le> TEMP_LIMIT"
    "CHR ''0'' \<noteq> CHR ''1''"
    by simp_all
  note on = status_round_trip [of 1 2 loaded 2 zero_mem "[]" zero_mem "CHR ''0''"]
  note off = status_round_trip [of 1 2 heating_at_400 2 zero_mem "[]" zero_mem "CHR ''0''"]
  from on pre have a:
    "rd_ret (dev_read STATUS_MINOR 2 2 zero_mem
               (wr_state (dev_write STATUS_MINOR ''1'' 1 (Some zero_mem) loaded))) = 2"
    "rd_user (dev_read STATUS_MINOR 2 2 zero_mem
               (wr_state (dev_write STATUS_MINOR ''1'' 1 (Some zero_mem) loaded))) = [CHR ''1'', CHR 0x0A]"
    by blast+
  from off pre have b:
    "rd_ret (dev_read STATUS_MINOR 2 2 zero_mem
               (wr_state (dev_write STATUS_MINOR ''0'' 1 (Some zero_mem) heating_at_400))) = 2"
    "rd_user (dev_read STATUS_MINOR 2 2 zero_mem
               (wr_state (dev_write STATUS_MINOR ''0'' 1 (Some zero_mem) heating_at_400)))
       = [CHR ''0'', CHR 0x0A]"
    by blast+
  show ?thesis
    using pre a b by blast
qed

subsection \<open>A write whose copy faults\<close>

lemma dev_write_ret:
  "wr_ret (dev_write minor buffer (Suc n) (Some heap) s) = Inr (int (Suc n))"
  by (simp add: dev_write_def mem_defs Let_def)

lemma dev_write_never_efault:
  "wr_ret (dev_write minor buffer len heap s) \<noteq> Inr (- EFAULT)"
  by (simp add: dev_write_def Let_def split: sum.splits prod.splits)

lemma copy_from_user_nothing:
  "copy_from_user (kmalloc (Suc n) (Some heap)) [] (Suc n) =
     Inr (Suc n, Block_ptr \<lparr>blk_size = Suc n,
                            blk_mem = (\<lambda>i. if i < Suc n then CHR 0x00 else heap i)\<rparr>)"
  by (simp add: mem_defs Let_def cong: if_cong)

lemma dev_write_status_fault:
  "minor = STATUS_MINOR \<Longrightarrow>
   dev_write minor [] (Suc n) (Some heap) s =
     \<lparr>wr_ret = Inr (int (Suc n)), wr_state = turn_heating_coil_off s\<rparr>"
  by (simp add: dev_write_def mem_defs Let_def)

text \<open>
  Claim C6. The claim wants a write whose copy from the client faults to return a
  transfer fault and to leave the coil alone. \<open>dev_write\<close> drops the result of
  \<open>copy_from_user\<close>: with a client address at which nothing can be read, the copy reports
  its one byte as not copied, yet the write of one byte to the status device returns 1,
  inspects the zero byte the copy left in the buffer and calls
  \<open>turn_heating_coil_off\<close>. With the coil on at 400 ticks the coil goes off. A write
  that got its memory returns its length whatever the copy did, and no write returns
  \<open>-EFAULT\<close>.
\<close>

theorem write_succeeds_on_copy_fault:
  "(\<exists>p. copy_from_user (kmalloc 1 (Some heap)) [] 1 = Inr (1, p))
   \<and> wr_ret (dev_write STATUS_MINOR [] 1 (Some heap) s) = Inr 1
   \<and> wr_state (dev_write STATUS_MINOR [] 1 (Some heap) s) = turn_heating_coil_off s
   \<and> heating heating_at_400 = 1
   \<and> levels heating_at_400 HEAT_PIN
   \<and> heating (wr_state (dev_write STATUS_MINOR [] 1 (Some zero_mem) heating_at_400)) = 0
   \<and> \<not> levels (wr_state (dev_write STATUS_MINOR [] 1 (Some zero_mem) heating_at_400)) HEAT_PIN
   \<and> wr_ret (dev_write minor buffer (Suc n) (Some heap) s) = Inr (int (Suc n))
   \<and> wr_ret (dev_write minor buffer len any_heap s) \<noteq> Inr (- EFAULT)"
  using copy_from_user_nothing [of 0 heap] dev_write_status_fault [of STATUS_MINOR 0 heap s]
    dev_write_status_fault [of STATUS_MINOR 0 zero_mem heating_at_400]
    dev_write_ret [of minor buffer n heap s] dev_write_never_efault [of minor buffer len any_heap s]
  by simp

subsection \<open>A write of length zero\<close>

lemma dev_write_empty_status:
  "minor = STATUS_MINOR \<Longrightarrow>
   dev_write minor buffer 0 heap s = \<lparr>wr_ret = Inl Invalid_load, wr_state = s\<rparr>"
  by (simp add: dev_write_def mem_defs Let_def)

lemma dev_write_empty_temp:
  "dev_write TEMP_MINOR buffer 0 heap s = \<lparr>wr_ret = Inr 0, wr_state = s\<rparr>"
  by (simp add: dev_write_def mem_defs Let_def)

lemma dev_write_load_in_block:
  "wr_ret (dev_write minor buffer (Suc n) heap s) \<noteq> Inl Invalid_load"
  by (cases heap) (simp_all add: dev_write_def mem_defs Let_def)

text \<open>
  Claim C9. For a write of length at least 1 to the status device the byte \<open>user_input[0]\<close>
  that \<open>dev_write\<close> inspects lies inside the allocated block: the load never traps, and
  with memory the write returns its length. The claim goes on to say that a write of
  length 0 is not rejected with \<open>-EINVAL\<close>, reads index 0 of an allocation of size zero
  and returns 0. The first two hold, the last does not: \<open>kmalloc(0)\<close> gives
  \<open>ZERO_SIZE_PTR\<close>, the copy of zero bytes touches nothing, and the load of
  \<open>user_input[0]\<close> through that pointer traps. The call to the status device does not
  return 0 and leaves the coil as it was. Only on the temperature device, where no byte
  is inspected, does a write of length 0 return 0.
\<close>

theorem empty_status_write_traps:
  "kmalloc 0 heap = Zero_size_ptr
   \<and> copy_from_user Zero_size_ptr buffer 0 = Inr (0, Zero_size_ptr)
   \<and> read_byte Zero_size_ptr 0 = Inl Invalid_load
   \<and> wr_ret (dev_write STATUS_MINOR buffer 0 heap s) = Inl Invalid_load
   \<and> wr_ret (dev_write STATUS_MINOR buffer 0 heap s) \<noteq> Inr 0
   \<and> wr_ret (dev_write STATUS_MINOR buffer 0 heap s) \<noteq> Inr (- EINVAL)
   \<and> wr_state (dev_write STATUS_MINOR buffer 0 heap s) = s
   \<and> dev_write TEMP_MINOR buffer 0 heap s = \<lparr>wr_ret = Inr 0, wr_state = s\<rparr>
   \<and> wr_ret (dev_write STATUS_MINOR buffer (Suc n) heap s) \<noteq> Inl Invalid_load
   \<and> wr_ret (dev_write STATUS_MINOR buffer (Suc n) (Some m) s) = Inr (int (Suc n))"
  using dev_write_empty_status [of STATUS_MINOR buffer heap s]
    dev_write_empty_temp [of buffer heap s]
    dev_write_load_in_block [of STATUS_MINOR buffer n heap s]
    dev_write_ret [of STATUS_MINOR buffer n m s]
  by (simp add: mem_defs)

subsection \<open>Loading when the watchdog thread cannot be created\<close>

lemma dev_write_keeps:
  "temp (wr_state (dev_write minor buffer len heap s)) = temp s"
  "wd_running (wr_state (dev_write minor buffer len heap s)) = wd_running s"
  by (simp_all add: dev_write_def Let_def split: sum.splits prod.splits)

lemma step_without_watchdog:
  "\<not> wd_running s \<Longrightarrow> \<not> wd_running (step a s) \<and> temp (step a s) = temp s"
  by (cases a) (simp_all add: dev_open_def dev_release_def dev_write_keeps)

lemma run_without_watchdog:
  "\<not> wd_running s \<Longrightarrow> \<not> wd_running (run as s) \<and> temp (run as s) = temp s"
proof (induction as arbitrary: s)
  case Nil
  then show ?case by simp
next
  case (Cons a as)
  from step_without_watchdog [OF Cons.prems, of a]
  have "\<not> wd_running (step a s)" and t: "temp (step a s) = temp s" by simp_all
  from Cons.IH [OF this(1)] t show ?case by simp
qed

lemma coil_init_null_handle:
  assumes "0 \<le> reg"
  shows "fst (coil_init reg Task_null s) = Inr 0"
    and "\<not> wd_running (snd (coil_init reg Task_null (module_start lv)))"
    and "temp (snd (coil_init reg Task_null (module_start lv))) = 0"
  using assms by (simp_all add: coil_init_proj module_start_def)

lemma coil_init_error_pointer:
  "fst (coil_init reg (Task_err e) s) =
     (if reg < 0 then Inr reg else Inl (Invalid_task (Task_err e)))"
  by (simp add: coil_init_proj)

lemma coil_init_trap_trace:
  "0 < reg \<Longrightarrow>
   trace (snd (coil_init reg (Task_err e) s)) =
     trace s @
       [Register_chrdev 0 TEMP_DEVICE_NAME, Register_chrdev reg STATUS_DEVICE_NAME,
        Printk Msg_starting_gpio_setup,
        Gpio_request CS_PIN, Gpio_request CLK_PIN, Gpio_request DATA_PIN, Gpio_request HEAT_PIN,
        Gpio_direction_output HEAT_PIN 0, Gpio_direction_output CS_PIN 1,
        Gpio_direction_output CLK_PIN 0, Gpio_direction_input DATA_PIN,
        Printk Msg_finished_gpio_setup, Kthread_create]"
  by (simp add: coil_init_def Let_def wake_up_process_def gpio_init_def prim_defs)

lemma engage_at_zero:
  assumes "temp s = 0" and "0 < len"
  shows "heating (step (Write STATUS_MINOR (CHR ''1'' # rest) len (Some heap)) s) = 1"
    and "levels (step (Write STATUS_MINOR (CHR ''1'' # rest) len (Some heap)) s) HEAT_PIN"
  using assms by (simp_all add: dev_write_status_state)

text \<open>
  Claim C10. The claim says that \<open>coil_init\<close> returns 0 whenever the registration of the
  temperature device succeeded, whether or not the watchdog thread could be created,
  and that without a watchdog \<open>temp\<close> stays 0, nothing enforces the second limit and a
  write to the status device still switches the coil on. The source provides for this
  with its test of the handle against the null pointer: had \<open>kthread_create\<close> returned
  the null pointer, \<open>coil_init\<close> would return 0 with no thread running, \<open>temp\<close> would
  stay 0 in every run and a write of the byte \<open>1\<close> would switch the coil on. But
  \<open>kthread_create\<close> reports a failure with an error pointer. That passes the test, goes
  to \<open>wake_up_process\<close> and traps there: after both devices are registered and the pins
  set up, \<open>coil_init\<close> does not return 0, with \<open>-ENOMEM\<close> and with every other error.
\<close>

theorem init_traps_when_thread_creation_fails:
  "fst (coil_init 240 (Task_err (- ENOMEM)) (module_start idle_levels))
     = Inl (Invalid_task (Task_err (- ENOMEM)))
   \<and> fst (coil_init reg (Task_err e) s) \<noteq> Inr 0
   \<and> trace (snd (coil_init 240 (Task_err (- ENOMEM)) (module_start idle_levels))) =
       [Register_chrdev 0 TEMP_DEVICE_NAME, Register_chrdev 240 STATUS_DEVICE_NAME,
        Printk Msg_starting_gpio_setup,
        Gpio_request CS_PIN, Gpio_request CLK_PIN, Gpio_request DATA_PIN, Gpio_request HEAT_PIN,
        Gpio_direction_output HEAT_PIN 0, Gpio_direction_output CS_PIN 1,
        Gpio_direction_output CLK_PIN 0, Gpio_direction_input DATA_PIN,
        Printk Msg_finished_gpio_setup, Kthread_create]
   \<and> \<not> wd_running (snd (coil_init 240 (Task_err (- ENOMEM)) (module_start idle_levels)))
   \<and> fst (coil_init 240 Task_ok (module_start idle_levels)) = Inr 0
   \<and> wd_running (snd (coil_init 240 Task_ok (module_start idle_levels)))
   \<and> fst (coil_init 240 Task_null (module_start idle_levels)) = Inr 0
   \<and> \<not> wd_running (run as (snd (coil_init 240 Task_null (module_start idle_levels))))
   \<and> temp (run as (snd (coil_init 240 Task_null (module_start idle_levels)))) = 0
   \<and> heating (run (as @ [Write STATUS_MINOR ''1'' 1 (Some zero_mem)])
                (snd (coil_init 240 Task_null (module_start idle_levels)))) = 1
   \<and> levels (run (as @ [Write STATUS_MINOR ''1'' 1 (Some zero_mem)])
                (snd (coil_init 240 Task_null (module_start idle_levels)))) HEAT_PIN"
proof -
  define s0 where "s0 = snd (coil_init 240 Task_null (module_start idle_levels))"
  have start: "\<not> wd_running s0" "temp s0 = 0"
    unfolding s0_def by (simp_all add: coil_init_null_handle)
  have idle: "\<not> wd_running (run as s0)" "temp (run as s0) = 0"
    using run_without_watchdog [OF start(1), of as] start(2) by simp_all
  have engage: "heating (run (as @ [Write STATUS_MINOR ''1'' 1 (Some zero_mem)]) s0) = 1"
    "levels (run (as @ [Write STATUS_MINOR ''1'' 1 (Some zero_mem)]) s0) HEAT_PIN"
    using engage_at_zero [OF idle(2), of 1 "[]" zero_mem] by (simp_all add: run_append)
  have trap: "fst (coil_init reg (Task_err e) s) \<noteq> Inr 0"
    by (simp add: coil_init_error_pointer)
  have trapped: "\<not> wd_running (snd (coil_init 240 (Task_err (- ENOMEM)) (module_start idle_levels)))"
    by (simp add: coil_init_proj module_start_def)
  have tr: "trace (module_start idle_levels) = []"
    by (simp add: module_start_def)
  show ?thesis
    using idle engage trap trapped coil_init_trap_trace [of 240 "- ENOMEM" "module_start idle_levels"]
    unfolding s0_def
    by (simp add: coil_init_proj tr module_start_def)
qed

end
